theory Spec2Isabelle
  imports Main "HOL-Library.Sublist"
begin

section \<open>Data model\<close>

text \<open>
  The program is a single Python module, \<^verbatim>\<open>app.py\<close>. Python strings are modelled as
  \<^typ>\<open>string\<close>; one \<^typ>\<open>char\<close> stands for one code point (below 256), so
  \<^const>\<open>length\<close> is Python's \<^verbatim>\<open>len\<close> and \<^const>\<open>take\<close> is a slice \<^verbatim>\<open>s[:n]\<close>.

  A Python exception is a value carrying the text that \<^verbatim>\<open>str(e)\<close> returns. A function that
  may raise returns \<open>exn + 'a\<close>, with \<open>Inl\<close> for the raise. Only exceptions derived from
  \<^verbatim>\<open>Exception\<close> are modelled (an interrupt of the interpreter is not).
\<close>

datatype exn = Exception (str: string)

text \<open>The dictionary with the keys \<^verbatim>\<open>title\<close>, \<^verbatim>\<open>body\<close>, \<^verbatim>\<open>link\<close> built by \<^verbatim>\<open>get_page_content\<close>.\<close>

record page_result =
  title :: string
  body :: string
  link :: string

text \<open>
  What \<^verbatim>\<open>newspaper.Article\<close> holds once \<^verbatim>\<open>download()\<close> and \<^verbatim>\<open>parse()\<close> have returned:
  the parsed title and text, and the outcome of calling \<^verbatim>\<open>nlp()\<close> and reading
  \<^verbatim>\<open>summary\<close> (a raise, or the summary).
\<close>

record article =
  article_title :: string
  article_text :: string
  article_nlp :: "exn + string"

text \<open>
  The fetch/parse collaborator: \<^verbatim>\<open>Article(url)\<close>, \<^verbatim>\<open>download()\<close>, \<^verbatim>\<open>parse()\<close> for a URL either
  raise or leave a parsed article.
\<close>

type_synonym fetch = "string \<Rightarrow> exn + article"

section \<open>Text normalizer: \<^verbatim>\<open>clean_text\<close>\<close>

text \<open>
  \<^verbatim>\<open>str.isspace\<close> on the code points below 256: tab, line feed, vertical tab, form feed,
  carriage return, the separators \<^verbatim>\<open>0x1c\<close> to \<^verbatim>\<open>0x1f\<close>, space, \<^verbatim>\<open>0x85\<close> and \<^verbatim>\<open>0xa0\<close>.
\<close>

definition isspace :: "char \<Rightarrow> bool" where
  "isspace c =
     (let n = (of_char c :: nat)
      in (9 \<le> n \<and> n \<le> 13) \<or> (28 \<le> n \<and> n \<le> 32) \<or> n = 133 \<or> n = 160)"

text \<open>
  \<^verbatim>\<open>text.split()\<close> with no separator: the maximal runs of non-whitespace characters, in
  order. The second argument is the run being read.
\<close>

fun split_from :: "string \<Rightarrow> string \<Rightarrow> string list" where
  "split_from [] w = (if w = [] then [] else [w])"
| "split_from (c # cs) w =
     (if isspace c then (if w = [] then split_from cs [] else w # split_from cs [])
      else split_from cs (w @ [c]))"

definition split :: "string \<Rightarrow> string list" where
  "split text = split_from text []"

text \<open>\<^verbatim>\<open>sep.join(parts)\<close>.\<close>

fun join :: "string \<Rightarrow> string list \<Rightarrow> string" where
  "join sep [] = []"
| "join sep [x] = x"
| "join sep (x # y # ys) = x @ sep @ join sep (y # ys)"

definition clean_text :: "string \<Rightarrow> string" where
  "clean_text text = (if text = [] then [] else join '' '' (split text))"

section \<open>Page extractor: \<^verbatim>\<open>get_page_content\<close>\<close>

text \<open>Line 58: \<^verbatim>\<open>content = summary if summary else article.text\<close>, after the inner \<^verbatim>\<open>try\<close>.\<close>

definition summary_of :: "article \<Rightarrow> string" where
  "summary_of a = (case article_nlp a of Inl e \<Rightarrow> [] | Inr s \<Rightarrow> s)"

definition content_of :: "article \<Rightarrow> string" where
  "content_of a = (if summary_of a \<noteq> [] then summary_of a else article_text a)"

text \<open>Line 57: \<^verbatim>\<open>title = article.title if article.title else url\<close>.\<close>

definition title_of :: "string \<Rightarrow> article \<Rightarrow> string" where
  "title_of url a = (if article_title a \<noteq> [] then article_title a else url)"

definition inaccessible :: string where
  "inaccessible = ''Content not accessible - might be a PDF or protected content''"

text \<open>The body of the outer \<^verbatim>\<open>try\<close> (lines 43 to 72): it raises what the collaborator raises.\<close>

definition get_page_content_try :: "fetch \<Rightarrow> string \<Rightarrow> exn + page_result" where
  "get_page_content_try fetch url =
     (case fetch url of
        Inl e \<Rightarrow> Inl e
      | Inr a \<Rightarrow>
          (let title = title_of url a; content = content_of a
           in if title = [] \<and> content = []
              then Inr \<lparr>title = url, body = inaccessible, link = url\<rparr>
              else Inr \<lparr>title = clean_text title,
                        body = clean_text (take 1500 content),
                        link = url\<rparr>))"

text \<open>The whole function: \<^verbatim>\<open>except Exception as e\<close> turns a raise into a result.\<close>

definition get_page_content :: "fetch \<Rightarrow> string \<Rightarrow> exn + page_result" where
  "get_page_content fetch url =
     (case get_page_content_try fetch url of
        Inl e \<Rightarrow> Inr \<lparr>title = url, body = ''Error extracting content: '' @ str e, link = url\<rparr>
      | Inr r \<Rightarrow> Inr r)"

section \<open>Search orchestrator: \<^verbatim>\<open>search_papers\<close>\<close>

text \<open>
  The search collaborator \<^verbatim>\<open>search(academic_query, num_results=max_results)\<close> is a
  generator, consumed by the \<^verbatim>\<open>for\<close> loop. One call is described by the URLs it yields, in
  order, and by the exception it raises after them, if it raises.
\<close>

type_synonym search = "string \<Rightarrow> int \<Rightarrow> string list \<times> exn option"

text \<open>
  Lines 83 to 85. The parameter defaults to \<^verbatim>\<open>None\<close>; \<^verbatim>\<open>not search_domains\<close> holds for
  \<^verbatim>\<open>None\<close> and for the empty list.
\<close>

definition effective_domains :: "string list option \<Rightarrow> string list" where
  "effective_domains search_domains =
     (case search_domains of
        None \<Rightarrow> [''arxiv.org'', ''scholar.google.com'']
      | Some ds \<Rightarrow> if ds = [] then [''arxiv.org'', ''scholar.google.com''] else ds)"

text \<open>Lines 88 and 89.\<close>

definition academic_query :: "string \<Rightarrow> string list \<Rightarrow> string" where
  "academic_query query search_domains =
     (let domain_query = join '' OR '' (map (\<lambda>domain. ''site:'' @ domain) search_domains)
      in query @ '' (research OR paper OR study OR journal) ('' @ domain_query @ '')'')"

text \<open>Line 96: the test that decides whether a page result is appended to \<^verbatim>\<open>results\<close>.\<close>

definition kept :: "page_result \<Rightarrow> bool" where
  "kept paper_info \<longleftrightarrow>
     body paper_info \<noteq> [] \<and> \<not> prefix ''Error extracting content'' (body paper_info)"

text \<open>
  The body of the \<^verbatim>\<open>for\<close> loop of lines 93 to 99, run for the URLs yielded, with
  \<^verbatim>\<open>results\<close> as the accumulator. \<^verbatim>\<open>time.sleep(2)\<close> changes no value and is left out.
\<close>

fun search_papers_loop :: "fetch \<Rightarrow> string list \<Rightarrow> page_result list \<Rightarrow> exn + page_result list" where
  "search_papers_loop fetch [] results = Inr results"
| "search_papers_loop fetch (url # urls) results =
     (case get_page_content fetch url of
        Inl e \<Rightarrow> Inl e
      | Inr paper_info \<Rightarrow>
          search_papers_loop fetch urls
            (if kept paper_info then results @ [paper_info] else results))"

text \<open>
  Lines 81 to 103. A raise inside the \<^verbatim>\<open>try\<close>, by the loop body or by the generator, ends
  in the handler, which returns the empty list; the message shown by \<^verbatim>\<open>st.error\<close> is not
  part of the value returned.
\<close>

definition search_papers :: "search \<Rightarrow> fetch \<Rightarrow> string \<Rightarrow> int \<Rightarrow> string list option \<Rightarrow> page_result list" where
  "search_papers search fetch query max_results search_domains =
     (let search_domains = effective_domains search_domains;
          academic_query = academic_query query search_domains
      in case search academic_query max_results of
           (urls, raised) \<Rightarrow>
             (case search_papers_loop fetch urls [] of
                Inl e \<Rightarrow> []
              | Inr results \<Rightarrow> (case raised of None \<Rightarrow> results | Some e \<Rightarrow> [])))"

section \<open>Paper analyzer: \<^verbatim>\<open>analyze_paper\<close>\<close>

text \<open>
  The language-model collaborator: \<^verbatim>\<open>chat(model=..., messages=[...])\<close> followed by
  \<^verbatim>\<open>response['message']['content']\<close>, for a model name and the content of the single user
  message. It gives the content or raises.
\<close>

type_synonym chat = "string \<Rightarrow> string \<Rightarrow> exn + string"

text \<open>The f-string of lines 107 to 119; every line of it is indented by four spaces.\<close>

definition prompt :: "page_result \<Rightarrow> string" where
  "prompt paper_info =
     ''\<newline>    Please analyze this research paper/article and provide:'' @
     ''\<newline>    1. Key findings'' @
     ''\<newline>    2. Main methodology'' @
     ''\<newline>    3. Potential relevance to the research topic'' @
     ''\<newline>    '' @
     ''\<newline>    Paper Title: '' @ title paper_info @
     ''\<newline>    Paper Link: '' @ link paper_info @
     ''\<newline>    Description: '' @ body paper_info @
     ''\<newline>    '' @
     ''\<newline>    Please be concise and focus on the most important points.'' @
     ''\<newline>    If the content is not accessible or unclear, please indicate that in your analysis.'' @
     ''\<newline>    ''"

text \<open>The handler also prints \<^verbatim>\<open>str(e)\<close>; standard output is not modelled.\<close>

definition analyze_paper :: "chat \<Rightarrow> page_result \<Rightarrow> exn + string" where
  "analyze_paper chat paper_info =
     (case chat ''llama3.1'' (prompt paper_info) of
        Inl e \<Rightarrow> Inr (''Analysis error: '' @ str e)
      | Inr content \<Rightarrow> Inr content)"

section \<open>Report generator: \<^verbatim>\<open>generate_markdown\<close>\<close>

text \<open>The dictionary appended to \<^verbatim>\<open>papers_data\<close> in \<^verbatim>\<open>main\<close>: a page result with an analysis.\<close>

record analyzed_paper = page_result +
  analysis :: string

text \<open>
  The value of \<^verbatim>\<open>datetime.now()\<close>. The clock is read inside \<^verbatim>\<open>generate_markdown\<close>; the
  model takes the reading as an argument.
\<close>

record datetime =
  year :: nat
  month :: nat
  day :: nat
  hour :: nat
  minute :: nat
  second :: nat
  microsecond :: nat

definition digit :: "nat \<Rightarrow> char" where
  "digit n = ''0123456789'' ! (n mod 10)"

definition pad2 :: "nat \<Rightarrow> string" where
  "pad2 n = [digit (n div 10), digit n]"

definition pad4 :: "nat \<Rightarrow> string" where
  "pad4 n = [digit (n div 1000), digit (n div 100), digit (n div 10), digit n]"

text \<open>
  \<^verbatim>\<open>strftime("%Y-%m-%d %H:%M:%S")\<close>, for the years 1000 to 9999 (a running system's clock
  reads a year in that range).
\<close>

definition strftime :: "datetime \<Rightarrow> string" where
  "strftime d =
     pad4 (year d) @ ''-'' @ pad2 (month d) @ ''-'' @ pad2 (day d) @ '' '' @
     pad2 (hour d) @ '':'' @ pad2 (minute d) @ '':'' @ pad2 (second d)"

text \<open>\<^verbatim>\<open>str(idx)\<close> for the non-negative integer \<open>idx\<close>, as the f-string renders it.\<close>

fun str_nat :: "nat \<Rightarrow> string" where
  "str_nat n = (if n < 10 then [digit n] else str_nat (n div 10) @ [digit n])"

declare str_nat.simps [simp del]

text \<open>The f-string of lines 137 to 141.\<close>

definition report_header :: "datetime \<Rightarrow> string \<Rightarrow> string" where
  "report_header now search_query =
     ''# Literature Review Results'' @
     ''\<newline>## Search Query: '' @ search_query @
     ''\<newline>*Generated on: '' @ strftime now @ ''*'' @
     ''\<newline>'' @
     ''\<newline>''"

text \<open>The f-string of lines 143 to 155.\<close>

definition paper_section :: "nat \<Rightarrow> analyzed_paper \<Rightarrow> string" where
  "paper_section idx paper =
     ''\<newline>## '' @ str_nat idx @ ''. '' @ title paper @
     ''\<newline>'' @
     ''\<newline>**Link:** '' @ link paper @
     ''\<newline>'' @
     ''\<newline>**Description:**'' @
     ''\<newline>'' @ body paper @
     ''\<newline>'' @
     ''\<newline>**AI Analysis:**'' @
     ''\<newline>'' @ analysis paper @
     ''\<newline>'' @
     ''\<newline>---'' @
     ''\<newline>''"

text \<open>The loop over \<^verbatim>\<open>enumerate(papers_data, 1)\<close>, with \<^verbatim>\<open>markdown_content\<close> as the accumulator.\<close>

fun generate_markdown_loop :: "nat \<Rightarrow> analyzed_paper list \<Rightarrow> string \<Rightarrow> string" where
  "generate_markdown_loop idx [] markdown_content = markdown_content"
| "generate_markdown_loop idx (paper # papers) markdown_content =
     generate_markdown_loop (Suc idx) papers (markdown_content @ paper_section idx paper)"

definition generate_markdown :: "datetime \<Rightarrow> analyzed_paper list \<Rightarrow> string \<Rightarrow> string" where
  "generate_markdown now papers_data search_query =
     generate_markdown_loop 1 papers_data (report_header now search_query)"

text \<open>
  Reading a report: its lines (the pieces between line feeds, as \<^verbatim>\<open>split("\n")\<close> gives
  them) and its headings of level two, the lines that start with \<^verbatim>\<open>## \<close>.
\<close>

fun lines :: "string \<Rightarrow> string list" where
  "lines [] = [[]]"
| "lines (c # cs) =
     (if c = CHR ''\<newline>'' then [] # lines cs else (c # hd (lines cs)) # tl (lines cs))"

definition headings :: "string \<Rightarrow> string list" where
  "headings markdown_content = filter (prefix ''## '') (lines markdown_content)"

section \<open>Batch pipeline: \<^verbatim>\<open>main\<close>\<close>

text \<open>
  The loop of lines 195 to 207, with \<^verbatim>\<open>papers_data\<close> as the accumulator. The progress bar
  is not modelled.
\<close>

fun main_loop :: "chat \<Rightarrow> page_result list \<Rightarrow> analyzed_paper list \<Rightarrow> exn + analyzed_paper list" where
  "main_loop chat [] papers_data = Inr papers_data"
| "main_loop chat (paper # papers) papers_data =
     (case analyze_paper chat paper of
        Inl e \<Rightarrow> Inl e
      | Inr a \<Rightarrow>
          main_loop chat papers
            (papers_data @ [\<lparr>title = title paper, body = body paper, link = link paper, analysis = a\<rparr>]))"

text \<open>What one run of \<^verbatim>\<open>main\<close> shows, as far as the pipeline decides it.\<close>

datatype outcome =
    Idle
  | Warning_No_Query
  | Warning_No_Papers
  | Review "analyzed_paper list" string

text \<open>
  Lines 185 to 262: \<open>button\<close> is the value of \<^verbatim>\<open>st.button\<close>, the other arguments are the
  values of the widgets.
\<close>

definition main :: "search \<Rightarrow> fetch \<Rightarrow> chat \<Rightarrow> datetime \<Rightarrow> bool \<Rightarrow> string \<Rightarrow> int \<Rightarrow> string list \<Rightarrow> exn + outcome" where
  "main search fetch chat now button search_query max_results search_domains =
     (if button then
        (if search_query \<noteq> [] then
           (let papers = search_papers search fetch search_query max_results (Some search_domains)
            in if papers \<noteq> [] then
                 (case main_loop chat papers [] of
                    Inl e \<Rightarrow> Inl e
                  | Inr papers_data \<Rightarrow>
                      Inr (Review papers_data (generate_markdown now papers_data search_query)))
               else Inr Warning_No_Papers)
         else Inr Warning_No_Query)
      else Inr Idle)"

section \<open>Collaborators used in the examples\<close>

definition fetch_timeout :: fetch where
  "fetch_timeout url = Inl (Exception ''Read timed out.'')"

text \<open>
  A small web: one readable article whose summary cannot be computed, one page that parses
  to nothing, the empty URL parsing to nothing, and every other URL timing out.
\<close>

definition fetch_web :: fetch where
  "fetch_web url =
     (if url = ''https://arxiv.org/abs/1706.03762'' then
        Inr \<lparr>article_title = ''Attention Is  All You Need'',
             article_text = '' The dominant sequence  transduction models'',
             article_nlp = Inl (Exception ''Resource punkt not found.'')\<rparr>
      else if url = ''https://arxiv.org/pdf/1706.03762'' then
        Inr \<lparr>article_title = [], article_text = [], article_nlp = Inr []\<rparr>
      else if url = [] then
        Inr \<lparr>article_title = [], article_text = [], article_nlp = Inr []\<rparr>
      else Inl (Exception ''Read timed out.''))"

definition search_three :: search where
  "search_three q max_results =
     ([''https://arxiv.org/abs/1706.03762'', ''https://scholar.google.com/x'', []], None)"

definition search_pdf :: search where
  "search_pdf q max_results = ([''https://arxiv.org/pdf/1706.03762''], None)"

text \<open>A page whose text starts with 1500 spaces.\<close>

definition article_padded :: article where
  "article_padded =
     \<lparr>article_title = ''T'',
      article_text = replicate 1500 CHR '' '' @ ''a'',
      article_nlp = Inr []\<rparr>"

definition fetch_padded :: fetch where
  "fetch_padded url = Inr article_padded"

definition now_example :: datetime where
  "now_example =
     \<lparr>year = 2026, month = 11, day = 4, hour = 9, minute = 5, second = 0, microsecond = 17\<rparr>"

definition chat_down :: chat where
  "chat_down model content = Inl (Exception ''Connection refused'')"

definition chat_echo :: chat where
  "chat_echo model content = Inr ''Key findings: none.''"

section \<open>Properties of the text normalizer\<close>

text \<open>Two values: the empty string, and a string with a line feed, a tab and three spaces.\<close>

lemma clean_text_examples:
  "clean_text [] = []"
  "clean_text (''a\<newline>'' @ [CHR 0x09] @ ''b   c'') = ''a b c''"
  by (simp_all add: clean_text_def split_def isspace_def)

text \<open>Normalizing never lengthens a string.\<close>

lemma length_join_le: "length (join '' '' (w # ws)) \<le> length w + 1 + length (join '' '' ws)"
  by (cases ws) simp_all

lemma length_split_from: "length (join '' '' (split_from cs w)) \<le> length cs + length w"
proof (induction cs arbitrary: w)
  case Nil
  then show ?case by simp
next
  case (Cons c cs)
  show ?case
  proof (cases "isspace c")
    case True
    show ?thesis
    proof (cases "w = []")
      case True
      with \<open>isspace c\<close> Cons.IH [of "[]"] show ?thesis by simp
    next
      case False
      have "length (join '' '' (w # split_from cs [])) \<le> length w + 1 + length (join '' '' (split_from cs []))"
        by (rule length_join_le)
      with False \<open>isspace c\<close> Cons.IH [of "[]"] show ?thesis by simp
    qed
  next
    case False
    with Cons.IH [of "w @ [c]"] show ?thesis by simp
  qed
qed

lemma length_clean_text: "length (clean_text s) \<le> length s"
  using length_split_from [of s "[]"] by (simp add: clean_text_def split_def)

text \<open>Leading spaces are dropped; a string of spaces normalizes to the empty string.\<close>

lemma isspace_space: "isspace CHR '' ''"
  by (simp add: isspace_def)

lemma split_from_spaces: "split_from (replicate n CHR '' '' @ s) [] = split_from s []"
  by (induction n) (simp_all add: isspace_space)

lemma clean_text_spaces: "clean_text (replicate n CHR '' '') = []"
  using split_from_spaces [of n "[]"] by (simp add: clean_text_def split_def)

section \<open>Properties of the page extractor\<close>

text \<open>The handler of \<^verbatim>\<open>get_page_content\<close> catches every raise of the \<^verbatim>\<open>try\<close> body.\<close>

lemma get_page_content_Inr: "\<exists>r. get_page_content fetch url = Inr r"
  by (simp add: get_page_content_def split: sum.split)

text \<open>
  Claim C1. For every URL the page extractor returns a page result and never raises:
  when the fetch/parse collaborator raises an exception with message \<open>m\<close>, the result is
  the page result with title and link equal to the URL and the body
  \<^verbatim>\<open>Error extracting content: \<close> followed by \<open>m\<close>.
\<close>

theorem get_page_content_never_raises:
  "(\<exists>r. get_page_content fetch url = Inr r) \<and>
   (\<forall>e. fetch url = Inl e \<longrightarrow>
      get_page_content fetch url =
        Inr \<lparr>title = url, body = ''Error extracting content: '' @ str e, link = url\<rparr>)"
  by (simp add: get_page_content_def get_page_content_try_def split: sum.split)

theorem get_page_content_never_raises_witness:
  "fetch_timeout ''https://arxiv.org/abs/1'' = Inl (Exception ''Read timed out.'') \<and>
   get_page_content fetch_timeout ''https://arxiv.org/abs/1'' =
     Inr \<lparr>title = ''https://arxiv.org/abs/1'',
          body = ''Error extracting content: Read timed out.'',
          link = ''https://arxiv.org/abs/1''\<rparr>"
  using get_page_content_never_raises [of fetch_timeout "''https://arxiv.org/abs/1''"]
  by (simp add: fetch_timeout_def)

text \<open>
  The derived title is empty only when the parsed title and the URL are both empty: line 57
  has put the URL in the place of an empty parsed title before line 61 tests the title.
\<close>

lemma title_of_empty: "title_of url a = [] \<longleftrightarrow> article_title a = [] \<and> url = []"
  by (simp add: title_of_def)

text \<open>
  Claim C7. When fetch and parse succeed and the page has no title, no summary and no
  text, the page extractor is to return the page result whose body is
  \<^verbatim>\<open>Content not accessible - might be a PDF or protected content\<close> and whose title and link
  are the URL (the comment of line 60: handle cases where content might be inaccessible).
  The code does not: at a non-empty URL whose page parses to nothing, the test of line 61
  fails, since the title is the URL by then, and the result has the URL as title and the
  empty body.
\<close>

theorem get_page_content_inaccessible_failing_input:
  "fetch_web ''https://arxiv.org/pdf/1706.03762'' =
     Inr \<lparr>article_title = [], article_text = [], article_nlp = Inr []\<rparr> \<and>
   title_of ''https://arxiv.org/pdf/1706.03762''
     \<lparr>article_title = [], article_text = [], article_nlp = Inr []\<rparr> =
     ''https://arxiv.org/pdf/1706.03762'' \<and>
   content_of \<lparr>article_title = [], article_text = [], article_nlp = Inr []\<rparr> = [] \<and>
   get_page_content fetch_web ''https://arxiv.org/pdf/1706.03762'' =
     Inr \<lparr>title = ''https://arxiv.org/pdf/1706.03762'', body = [],
          link = ''https://arxiv.org/pdf/1706.03762''\<rparr> \<and>
   get_page_content fetch_web ''https://arxiv.org/pdf/1706.03762'' \<noteq>
     Inr \<lparr>title = ''https://arxiv.org/pdf/1706.03762'',
          body = ''Content not accessible - might be a PDF or protected content'',
          link = ''https://arxiv.org/pdf/1706.03762''\<rparr>"
  by (simp add: fetch_web_def get_page_content_def get_page_content_try_def title_of_def
      content_of_def summary_of_def clean_text_def split_def isspace_def Let_def)

text \<open>
  Claim C5, as amended. When fetch and parse succeed and the derived title or the content
  is not empty, the page extractor returns the normalized title, the link, and as body the
  normalization of the first 1500 characters of the content; the body has at most 1500
  characters.
\<close>

theorem get_page_content_success:
  assumes "fetch url = Inr a"
    and "title_of url a \<noteq> [] \<or> content_of a \<noteq> []"
  shows "get_page_content fetch url =
           Inr \<lparr>title = clean_text (title_of url a),
                body = clean_text (take 1500 (content_of a)),
                link = url\<rparr> \<and>
         length (clean_text (take 1500 (content_of a))) \<le> 1500"
proof -
  have "length (clean_text (take 1500 (content_of a))) \<le> length (take 1500 (content_of a))"
    by (rule length_clean_text)
  then have "length (clean_text (take 1500 (content_of a))) \<le> 1500"
    by simp
  with assms show ?thesis
    by (auto simp add: get_page_content_def get_page_content_try_def)
qed

theorem get_page_content_success_witness:
  "fetch_web ''https://arxiv.org/abs/1706.03762'' =
     Inr \<lparr>article_title = ''Attention Is  All You Need'',
          article_text = '' The dominant sequence  transduction models'',
          article_nlp = Inl (Exception ''Resource punkt not found.'')\<rparr> \<and>
   get_page_content fetch_web ''https://arxiv.org/abs/1706.03762'' =
     Inr \<lparr>title = ''Attention Is All You Need'',
          body = ''The dominant sequence transduction models'',
          link = ''https://arxiv.org/abs/1706.03762''\<rparr>"
  using get_page_content_success [of fetch_web "''https://arxiv.org/abs/1706.03762''"
      "\<lparr>article_title = ''Attention Is  All You Need'',
        article_text = '' The dominant sequence  transduction models'',
        article_nlp = Inl (Exception ''Resource punkt not found.'')\<rparr>"]
  by (simp add: fetch_web_def title_of_def content_of_def summary_of_def
      clean_text_def split_def isspace_def)

text \<open>
  Claim C5 as stated has the body equal to the first 1500 characters of the normalized
  content. For a page whose text is 1500 spaces followed by \<^verbatim>\<open>a\<close> that would be \<^verbatim>\<open>a\<close>; the
  page extractor cuts first, normalizes 1500 spaces, and returns the empty body.
\<close>

theorem get_page_content_success_counterexample:
  "fetch_padded ''https://arxiv.org/abs/1'' = Inr article_padded \<and>
   title_of ''https://arxiv.org/abs/1'' article_padded = ''T'' \<and>
   take 1500 (clean_text (content_of article_padded)) = ''a'' \<and>
   get_page_content fetch_padded ''https://arxiv.org/abs/1'' =
     Inr \<lparr>title = ''T'', body = [], link = ''https://arxiv.org/abs/1''\<rparr>"
proof -
  have c: "content_of article_padded = replicate 1500 CHR '' '' @ ''a''"
    by (simp add: content_of_def summary_of_def article_padded_def)
  have "split_from (replicate 1500 CHR '' '' @ ''a'') [] = split_from ''a'' []"
    by (rule split_from_spaces)
  then have n: "clean_text (replicate 1500 CHR '' '' @ ''a'') = ''a''"
    by (simp add: clean_text_def split_def isspace_def)
  have ti: "title_of ''https://arxiv.org/abs/1'' article_padded = ''T''"
    by (simp add: title_of_def article_padded_def)
  have ct: "clean_text ''T'' = ''T''"
    by (simp add: clean_text_def split_def isspace_def)
  show ?thesis
    by (simp add: fetch_padded_def get_page_content_def get_page_content_try_def
        c n ti ct clean_text_spaces)
qed

section \<open>Properties of the search orchestrator\<close>

text \<open>
  The loop never raises: it appends to \<^verbatim>\<open>results\<close>, in order, the page results that pass the
  test of line 96. Each URL has a page result, since the page extractor never raises.
\<close>

lemma search_papers_loop_eq:
  "map (get_page_content fetch) urls = map Inr pages \<Longrightarrow>
   search_papers_loop fetch urls results = Inr (results @ filter kept pages)"
proof (induction urls arbitrary: pages results)
  case Nil
  then show ?case by simp
next
  case (Cons url urls)
  then obtain p ps where pages: "pages = p # ps" and p: "get_page_content fetch url = Inr p"
    and ps: "map (get_page_content fetch) urls = map Inr ps"
    by (cases pages) auto
  show ?case using Cons.IH [OF ps] p by (simp add: pages)
qed

lemma pages_exist: "\<exists>pages. map (get_page_content fetch) urls = map Inr pages"
proof (induction urls)
  case Nil
  show ?case by simp
next
  case (Cons url urls)
  then obtain ps where ps: "map (get_page_content fetch) urls = map Inr ps" by blast
  obtain p where "get_page_content fetch url = Inr p" using get_page_content_Inr by blast
  with ps have "map (get_page_content fetch) (url # urls) = map Inr (p # ps)" by simp
  then show ?case by blast
qed

text \<open>What \<^verbatim>\<open>search_papers\<close> returns passed the test, and is no longer than the URLs yielded.\<close>

lemma search_papers_kept: "p \<in> set (search_papers search fetch query max_results search_domains) \<Longrightarrow> kept p"
proof -
  assume p: "p \<in> set (search_papers search fetch query max_results search_domains)"
  obtain urls raised where s: "search (academic_query query (effective_domains search_domains)) max_results = (urls, raised)"
    by (cases "search (academic_query query (effective_domains search_domains)) max_results")
  obtain pages where pages: "map (get_page_content fetch) urls = map Inr pages"
    using pages_exist by blast
  have "search_papers search fetch query max_results search_domains = filter kept pages
      \<or> search_papers search fetch query max_results search_domains = []"
    using s search_papers_loop_eq [OF pages, of "[]"]
    by (cases raised) (simp_all add: search_papers_def)
  with p show "kept p" by auto
qed

lemma length_search_papers:
  assumes "search (academic_query query (effective_domains search_domains)) max_results = (urls, raised)"
  shows "length (search_papers search fetch query max_results search_domains) \<le> length urls"
proof -
  obtain pages where pages: "map (get_page_content fetch) urls = map Inr pages"
    using pages_exist by blast
  from pages have "length (map (get_page_content fetch) urls) = length (map Inr pages :: (exn + page_result) list)"
    by simp
  then have len: "length pages = length urls" by simp
  have "search_papers search fetch query max_results search_domains = filter kept pages
      \<or> search_papers search fetch query max_results search_domains = []"
    using assms search_papers_loop_eq [OF pages, of "[]"]
    by (cases raised) (simp_all add: search_papers_def)
  then show ?thesis
  proof
    assume "search_papers search fetch query max_results search_domains = filter kept pages"
    then show ?thesis using len length_filter_le [of kept pages] by simp
  next
    assume "search_papers search fetch query max_results search_domains = []"
    then show ?thesis by simp
  qed
qed

text \<open>
  Claim C2, as amended. \<^verbatim>\<open>search_papers\<close> never returns a page result whose body starts
  with \<^verbatim>\<open>Error extracting content: \<close>. When the search collaborator yields its URLs without
  raising, the list returned is made of the page results extracted for them, in order,
  without those whose body is empty or starts with \<^verbatim>\<open>Error extracting content\<close>, and
  only those are left out: a page result carrying the body
  \<^verbatim>\<open>Content not accessible - might be a PDF or protected content\<close> is in the list returned.
\<close>

theorem search_papers_filter:
  "(\<forall>p \<in> set (search_papers search fetch query max_results search_domains).
      \<not> prefix ''Error extracting content: '' (body p)) \<and>
   (search (academic_query query (effective_domains search_domains)) max_results = (urls, None) \<longrightarrow>
    (\<exists>pages. map (get_page_content fetch) urls = map Inr pages \<and>
       search_papers search fetch query max_results search_domains =
         filter (\<lambda>p. body p \<noteq> [] \<and> \<not> prefix ''Error extracting content'' (body p)) pages \<and>
       (\<forall>p \<in> set pages.
          body p = ''Content not accessible - might be a PDF or protected content'' \<longrightarrow>
          p \<in> set (search_papers search fetch query max_results search_domains))))"
proof (intro conjI ballI impI)
  fix p
  assume "p \<in> set (search_papers search fetch query max_results search_domains)"
  then have "kept p" by (rule search_papers_kept)
  then have n: "\<not> prefix ''Error extracting content'' (body p)"
    by (simp add: kept_def)
  show "\<not> prefix ''Error extracting content: '' (body p)"
  proof
    assume a: "prefix ''Error extracting content: '' (body p)"
    have "prefix ''Error extracting content'' ''Error extracting content: ''"
      by simp
    from this a have "prefix ''Error extracting content'' (body p)"
      by (rule prefix_order.trans)
    with n show False by simp
  qed
next
  assume s: "search (academic_query query (effective_domains search_domains)) max_results = (urls, None)"
  obtain pages where pages: "map (get_page_content fetch) urls = map Inr pages"
    using pages_exist by blast
  have res: "search_papers search fetch query max_results search_domains = filter kept pages"
    using s search_papers_loop_eq [OF pages, of "[]"] by (simp add: search_papers_def)
  have k: "kept = (\<lambda>p. body p \<noteq> [] \<and> \<not> prefix ''Error extracting content'' (body p))"
    by (simp add: kept_def fun_eq_iff)
  have sen: "kept p" if "body p = ''Content not accessible - might be a PDF or protected content''" for p
    using that by (simp add: kept_def)
  show "\<exists>pages. map (get_page_content fetch) urls = map Inr pages \<and>
       search_papers search fetch query max_results search_domains =
         filter (\<lambda>p. body p \<noteq> [] \<and> \<not> prefix ''Error extracting content'' (body p)) pages \<and>
       (\<forall>p \<in> set pages.
          body p = ''Content not accessible - might be a PDF or protected content'' \<longrightarrow>
          p \<in> set (search_papers search fetch query max_results search_domains))"
    using pages res k sen by (intro exI [of _ pages]) auto
qed

theorem search_papers_filter_witness:
  "search_three (academic_query ''attention'' (effective_domains None)) 5 =
     ([''https://arxiv.org/abs/1706.03762'', ''https://scholar.google.com/x'', []], None) \<and>
   get_page_content fetch_web ''https://scholar.google.com/x'' =
     Inr \<lparr>title = ''https://scholar.google.com/x'',
          body = ''Error extracting content: Read timed out.'',
          link = ''https://scholar.google.com/x''\<rparr> \<and>
   search_papers search_three fetch_web ''attention'' 5 None =
     [\<lparr>title = ''Attention Is All You Need'',
       body = ''The dominant sequence transduction models'',
       link = ''https://arxiv.org/abs/1706.03762''\<rparr>,
      \<lparr>title = [],
       body = ''Content not accessible - might be a PDF or protected content'',
       link = []\<rparr>]"
  using search_papers_filter [of search_three fetch_web "''attention''" 5 None
      "[''https://arxiv.org/abs/1706.03762'', ''https://scholar.google.com/x'', []]"]
  by (simp add: search_three_def search_papers_def fetch_web_def get_page_content_def
      get_page_content_try_def title_of_def content_of_def summary_of_def inaccessible_def
      clean_text_def split_def isspace_def kept_def Let_def)

text \<open>
  Claim C2 as stated says that only the page results with the error prefix are filtered.
  A page that parses to an empty title and an empty text gives a page result with an empty
  body, which does not start with the prefix, and \<^verbatim>\<open>search_papers\<close> drops it.
\<close>

theorem search_papers_filter_counterexample:
  "search_pdf (academic_query ''attention'' (effective_domains None)) 5 =
     ([''https://arxiv.org/pdf/1706.03762''], None) \<and>
   get_page_content fetch_web ''https://arxiv.org/pdf/1706.03762'' =
     Inr \<lparr>title = ''https://arxiv.org/pdf/1706.03762'', body = [],
          link = ''https://arxiv.org/pdf/1706.03762''\<rparr> \<and>
   \<not> prefix ''Error extracting content: '' [] \<and>
   search_papers search_pdf fetch_web ''attention'' 5 None = []"
  by (simp add: search_pdf_def search_papers_def fetch_web_def get_page_content_def
      get_page_content_try_def title_of_def content_of_def summary_of_def inaccessible_def
      clean_text_def split_def isspace_def kept_def Let_def)

text \<open>
  Claim C8. When the search collaborator yields at most \<open>max_results\<close> URLs,
  \<^verbatim>\<open>search_papers\<close> returns at most \<open>max_results\<close> page results. When the domains argument
  is absent or empty, the domains used to build the academic query are \<^verbatim>\<open>arxiv.org\<close> and
  \<^verbatim>\<open>scholar.google.com\<close>.
\<close>

theorem search_papers_bound_and_default_domains:
  "(search (academic_query query (effective_domains search_domains)) max_results = (urls, raised) \<longrightarrow>
    int (length urls) \<le> max_results \<longrightarrow>
    int (length (search_papers search fetch query max_results search_domains)) \<le> max_results) \<and>
   (search_domains = None \<or> search_domains = Some [] \<longrightarrow>
    set (effective_domains search_domains) = {''arxiv.org'', ''scholar.google.com''} \<and>
    academic_query query (effective_domains search_domains) =
      query @ '' (research OR paper OR study OR journal) (site:arxiv.org OR site:scholar.google.com)'' \<and>
    search_papers search fetch query max_results search_domains =
      search_papers search fetch query max_results (Some [''arxiv.org'', ''scholar.google.com'']))"
proof (intro conjI impI)
  assume "search (academic_query query (effective_domains search_domains)) max_results = (urls, raised)"
    and "int (length urls) \<le> max_results"
  then show "int (length (search_papers search fetch query max_results search_domains)) \<le> max_results"
    using length_search_papers [of search query search_domains max_results urls raised fetch] by linarith
next
  assume "search_domains = None \<or> search_domains = Some []"
  then show "set (effective_domains search_domains) = {''arxiv.org'', ''scholar.google.com''}"
    by (auto simp add: effective_domains_def)
next
  assume "search_domains = None \<or> search_domains = Some []"
  then show "academic_query query (effective_domains search_domains) =
      query @ '' (research OR paper OR study OR journal) (site:arxiv.org OR site:scholar.google.com)''"
    by (auto simp add: effective_domains_def academic_query_def)
next
  assume "search_domains = None \<or> search_domains = Some []"
  then show "search_papers search fetch query max_results search_domains =
      search_papers search fetch query max_results (Some [''arxiv.org'', ''scholar.google.com''])"
    by (auto simp add: effective_domains_def search_papers_def)
qed

theorem search_papers_bound_and_default_domains_witness:
  "search_three (academic_query ''attention'' (effective_domains None)) 3 =
     ([''https://arxiv.org/abs/1706.03762'', ''https://scholar.google.com/x'', []], None) \<and>
   int (length [''https://arxiv.org/abs/1706.03762'', ''https://scholar.google.com/x'', []]) \<le> 3 \<and>
   int (length (search_papers search_three fetch_web ''attention'' 3 None)) \<le> 3 \<and>
   set (effective_domains None) = {''arxiv.org'', ''scholar.google.com''}"
proof -
  have s: "search_three (academic_query ''attention'' (effective_domains None)) 3 =
      ([''https://arxiv.org/abs/1706.03762'', ''https://scholar.google.com/x'', []], None)"
    by (simp add: search_three_def)
  note t = search_papers_bound_and_default_domains [of search_three "''attention''" None 3
      "[''https://arxiv.org/abs/1706.03762'', ''https://scholar.google.com/x'', []]" None fetch_web]
  from t [THEN conjunct1, rule_format, OF s]
  have "int (length (search_papers search_three fetch_web ''attention'' 3 None)) \<le> 3"
    by simp
  moreover from t [THEN conjunct2]
  have "set (effective_domains None) = {''arxiv.org'', ''scholar.google.com''}"
    by blast
  ultimately show ?thesis using s by simp
qed

text \<open>
  Claim C10. Every page result in the list returned by \<^verbatim>\<open>search_papers\<close> has a non-empty
  body. A page that parses to an empty title, an empty summary and an empty text, at a
  non-empty URL, gives a page result with the URL as title and an empty body, which is
  neither the error form nor the sentinel, and this page result is not in the list returned.
\<close>

theorem search_papers_nonempty_body:
  "(\<forall>p \<in> set (search_papers search fetch query max_results search_domains). body p \<noteq> []) \<and>
   (\<forall>url a. fetch url = Inr a \<longrightarrow> url \<noteq> [] \<longrightarrow> article_title a = [] \<longrightarrow>
      summary_of a = [] \<longrightarrow> article_text a = [] \<longrightarrow>
      get_page_content fetch url = Inr \<lparr>title = clean_text url, body = [], link = url\<rparr> \<and>
      \<lparr>title = clean_text url, body = [], link = url\<rparr>
        \<notin> set (search_papers search fetch query max_results search_domains))"
proof (intro conjI ballI allI impI)
  fix p
  assume "p \<in> set (search_papers search fetch query max_results search_domains)"
  then have "kept p" by (rule search_papers_kept)
  then show "body p \<noteq> []" by (simp add: kept_def)
next
  fix url a
  assume "fetch url = Inr a" "url \<noteq> []" "article_title a = []" "summary_of a = []" "article_text a = []"
  then show "get_page_content fetch url = Inr \<lparr>title = clean_text url, body = [], link = url\<rparr>"
    by (simp add: get_page_content_def get_page_content_try_def title_of_def content_of_def
        clean_text_def)
next
  fix url a
  have "\<not> kept \<lparr>title = clean_text url, body = [], link = url\<rparr>"
    by (simp add: kept_def)
  then show "\<lparr>title = clean_text url, body = [], link = url\<rparr>
      \<notin> set (search_papers search fetch query max_results search_domains)"
    using search_papers_kept by blast
qed

theorem search_papers_nonempty_body_witness:
  "fetch_web ''https://arxiv.org/pdf/1706.03762'' =
     Inr \<lparr>article_title = [], article_text = [], article_nlp = Inr []\<rparr> \<and>
   get_page_content fetch_web ''https://arxiv.org/pdf/1706.03762'' =
     Inr \<lparr>title = ''https://arxiv.org/pdf/1706.03762'', body = [],
          link = ''https://arxiv.org/pdf/1706.03762''\<rparr> \<and>
   \<lparr>title = ''https://arxiv.org/pdf/1706.03762'', body = [],
    link = ''https://arxiv.org/pdf/1706.03762''\<rparr>
     \<notin> set (search_papers search_pdf fetch_web ''attention'' 5 None) \<and>
   search_papers search_three fetch_web ''attention'' 5 None =
     [\<lparr>title = ''Attention Is All You Need'',
       body = ''The dominant sequence transduction models'',
       link = ''https://arxiv.org/abs/1706.03762''\<rparr>,
      \<lparr>title = [],
       body = ''Content not accessible - might be a PDF or protected content'',
       link = []\<rparr>] \<and>
   body (search_papers search_three fetch_web ''attention'' 5 None ! 0) \<noteq> [] \<and>
   body (search_papers search_three fetch_web ''attention'' 5 None ! 1) \<noteq> []"
proof -
  have r: "search_papers search_three fetch_web ''attention'' 5 None =
     [\<lparr>title = ''Attention Is All You Need'',
       body = ''The dominant sequence transduction models'',
       link = ''https://arxiv.org/abs/1706.03762''\<rparr>,
      \<lparr>title = [],
       body = ''Content not accessible - might be a PDF or protected content'',
       link = []\<rparr>]"
    by (simp add: search_three_def search_papers_def fetch_web_def get_page_content_def
      get_page_content_try_def title_of_def content_of_def summary_of_def inaccessible_def
      clean_text_def split_def isspace_def kept_def Let_def)
  have u: "clean_text ''https://arxiv.org/pdf/1706.03762'' = ''https://arxiv.org/pdf/1706.03762''"
    by (simp add: clean_text_def split_def isspace_def)
  have f: "fetch_web ''https://arxiv.org/pdf/1706.03762'' =
      Inr \<lparr>article_title = [], article_text = [], article_nlp = Inr []\<rparr>"
    by (simp add: fetch_web_def)
  have s: "summary_of \<lparr>article_title = [], article_text = [], article_nlp = Inr []\<rparr> = []"
    by (simp add: summary_of_def)
  from search_papers_nonempty_body [of search_pdf fetch_web "''attention''" 5 None]
  have "get_page_content fetch_web ''https://arxiv.org/pdf/1706.03762'' =
      Inr \<lparr>title = clean_text ''https://arxiv.org/pdf/1706.03762'', body = [],
           link = ''https://arxiv.org/pdf/1706.03762''\<rparr> \<and>
      \<lparr>title = clean_text ''https://arxiv.org/pdf/1706.03762'', body = [],
       link = ''https://arxiv.org/pdf/1706.03762''\<rparr>
        \<notin> set (search_papers search_pdf fetch_web ''attention'' 5 None)"
    using f s by simp
  moreover have all: "\<forall>p \<in> set (search_papers search_three fetch_web ''attention'' 5 None). body p \<noteq> []"
    using search_papers_nonempty_body [of search_three fetch_web "''attention''" 5 None] by blast
  have "body (search_papers search_three fetch_web ''attention'' 5 None ! 0) \<noteq> [] \<and>
      body (search_papers search_three fetch_web ''attention'' 5 None ! 1) \<noteq> []"
  proof -
    have "search_papers search_three fetch_web ''attention'' 5 None ! 0
        \<in> set (search_papers search_three fetch_web ''attention'' 5 None)"
      and "search_papers search_three fetch_web ''attention'' 5 None ! 1
        \<in> set (search_papers search_three fetch_web ''attention'' 5 None)"
      by (simp_all add: r)
    with all show ?thesis by blast
  qed
  ultimately show ?thesis using f r by (simp only: u) simp
qed

section \<open>Properties of the paper analyzer\<close>

lemma analyze_paper_Inr: "\<exists>s. analyze_paper chat paper_info = Inr s"
  by (simp add: analyze_paper_def split: sum.split)

text \<open>
  Claim C9. \<^verbatim>\<open>analyze_paper\<close> never raises: for every paper it returns a string. When the
  language-model collaborator raises an exception with message \<open>m\<close>, the string is
  \<^verbatim>\<open>Analysis error: \<close> followed by \<open>m\<close>; otherwise it is the text of the model's response,
  unchanged.
\<close>

theorem analyze_paper_never_raises:
  "(\<exists>s. analyze_paper chat paper_info = Inr s) \<and>
   (\<forall>e. chat ''llama3.1'' (prompt paper_info) = Inl e \<longrightarrow>
      analyze_paper chat paper_info = Inr (''Analysis error: '' @ str e)) \<and>
   (\<forall>content. chat ''llama3.1'' (prompt paper_info) = Inr content \<longrightarrow>
      analyze_paper chat paper_info = Inr content)"
  by (simp add: analyze_paper_def split: sum.split)

theorem analyze_paper_never_raises_witness:
  "chat_down ''llama3.1'' (prompt \<lparr>title = ''T'', body = ''B'', link = ''L''\<rparr>) =
     Inl (Exception ''Connection refused'') \<and>
   analyze_paper chat_down \<lparr>title = ''T'', body = ''B'', link = ''L''\<rparr> =
     Inr ''Analysis error: Connection refused'' \<and>
   chat_echo ''llama3.1'' (prompt \<lparr>title = ''T'', body = ''B'', link = ''L''\<rparr>) =
     Inr ''Key findings: none.'' \<and>
   analyze_paper chat_echo \<lparr>title = ''T'', body = ''B'', link = ''L''\<rparr> =
     Inr ''Key findings: none.''"
  using analyze_paper_never_raises [of chat_down "\<lparr>title = ''T'', body = ''B'', link = ''L''\<rparr>"]
    analyze_paper_never_raises [of chat_echo "\<lparr>title = ''T'', body = ''B'', link = ''L''\<rparr>"]
  by (simp add: chat_down_def chat_echo_def)

section \<open>Properties of the batch pipeline\<close>

text \<open>The loop of \<^verbatim>\<open>main\<close> appends one analyzed paper per page result, in order.\<close>

lemma main_loop_eq:
  "map (analyze_paper chat) papers = map Inr analyses \<Longrightarrow>
   main_loop chat papers papers_data =
     Inr (papers_data @
       map (\<lambda>(paper, a). \<lparr>title = title paper, body = body paper, link = link paper, analysis = a\<rparr>)
         (zip papers analyses))"
proof (induction papers arbitrary: analyses papers_data)
  case Nil
  then show ?case by simp
next
  case (Cons paper papers)
  then obtain a as where analyses: "analyses = a # as" and a: "analyze_paper chat paper = Inr a"
    and as: "map (analyze_paper chat) papers = map Inr as"
    by (cases analyses) auto
  show ?case using Cons.IH [OF as] a by (simp add: analyses)
qed

lemma analyses_exist: "\<exists>analyses. map (analyze_paper chat) papers = map Inr analyses"
proof (induction papers)
  case Nil
  show ?case by simp
next
  case (Cons paper papers)
  then obtain as where as: "map (analyze_paper chat) papers = map Inr as" by blast
  obtain a where "analyze_paper chat paper = Inr a" using analyze_paper_Inr by blast
  with as have "map (analyze_paper chat) (paper # papers) = map Inr (a # as)" by simp
  then show ?case by blast
qed

lemma main_loop_result:
  "\<exists>papers_data. main_loop chat papers [] = Inr papers_data \<and>
     length papers_data = length papers \<and>
     (\<forall>i < length papers.
        link (papers_data ! i) = link (papers ! i) \<and>
        title (papers_data ! i) = title (papers ! i) \<and>
        body (papers_data ! i) = body (papers ! i) \<and>
        analyze_paper chat (papers ! i) = Inr (analysis (papers_data ! i)))"
proof -
  obtain analyses where an: "map (analyze_paper chat) papers = map Inr analyses"
    using analyses_exist by blast
  from an have "length (map (analyze_paper chat) papers) = length (map Inr analyses :: (exn + string) list)"
    by simp
  then have len: "length analyses = length papers" by simp
  have nth: "analyze_paper chat (papers ! i) = Inr (analyses ! i)" if "i < length papers" for i
  proof -
    from that have "map (analyze_paper chat) papers ! i = analyze_paper chat (papers ! i)"
      by simp
    moreover from that len have "(map Inr analyses :: (exn + string) list) ! i = Inr (analyses ! i)"
      by simp
    ultimately show ?thesis using an by simp
  qed
  let ?pd = "map (\<lambda>(paper, a). \<lparr>title = title paper, body = body paper, link = link paper, analysis = a\<rparr>)
         (zip papers analyses)"
  have "main_loop chat papers [] = Inr ?pd"
    using main_loop_eq [OF an, of "[]"] by simp
  moreover have "length ?pd = length papers" using len by simp
  moreover have "\<forall>i < length papers.
        link (?pd ! i) = link (papers ! i) \<and>
        title (?pd ! i) = title (papers ! i) \<and>
        body (?pd ! i) = body (papers ! i) \<and>
        analyze_paper chat (papers ! i) = Inr (analysis (?pd ! i))"
    using len nth by simp
  ultimately show ?thesis by blast
qed

text \<open>
  Claim C3. When the search orchestrator returns a non-empty list of page results, the
  batch pipeline returns one analyzed paper for each of them: the output has the length of
  the input, and the analyzed paper at each index carries the link (and the title and the
  body) of the page result at that index, together with its analysis.
\<close>

theorem main_one_analysis_per_paper:
  assumes "button"
    and "search_query \<noteq> []"
    and "search_papers search fetch search_query max_results (Some search_domains) = papers"
    and "papers \<noteq> []"
  shows "\<exists>papers_data.
           main search fetch chat now button search_query max_results search_domains =
             Inr (Review papers_data (generate_markdown now papers_data search_query)) \<and>
           length papers_data = length papers \<and>
           (\<forall>i < length papers.
              link (papers_data ! i) = link (papers ! i) \<and>
              title (papers_data ! i) = title (papers ! i) \<and>
              body (papers_data ! i) = body (papers ! i) \<and>
              analyze_paper chat (papers ! i) = Inr (analysis (papers_data ! i)))"
proof -
  obtain papers_data where pd: "main_loop chat papers [] = Inr papers_data"
    and rest: "length papers_data = length papers \<and>
     (\<forall>i < length papers.
        link (papers_data ! i) = link (papers ! i) \<and>
        title (papers_data ! i) = title (papers ! i) \<and>
        body (papers_data ! i) = body (papers ! i) \<and>
        analyze_paper chat (papers ! i) = Inr (analysis (papers_data ! i)))"
    using main_loop_result [of chat papers] by blast
  have "main search fetch chat now button search_query max_results search_domains =
      Inr (Review papers_data (generate_markdown now papers_data search_query))"
    using assms pd by (simp add: main_def)
  with rest show ?thesis by blast
qed

theorem main_one_analysis_per_paper_witness:
  "search_papers search_three fetch_web ''attention'' 5 (Some []) =
     [\<lparr>title = ''Attention Is All You Need'',
       body = ''The dominant sequence transduction models'',
       link = ''https://arxiv.org/abs/1706.03762''\<rparr>,
      \<lparr>title = [],
       body = ''Content not accessible - might be a PDF or protected content'',
       link = []\<rparr>] \<and>
   main search_three fetch_web chat_down now_example True ''attention'' 5 [] =
     Inr (Review
       [\<lparr>title = ''Attention Is All You Need'',
         body = ''The dominant sequence transduction models'',
         link = ''https://arxiv.org/abs/1706.03762'',
         analysis = ''Analysis error: Connection refused''\<rparr>,
        \<lparr>title = [],
         body = ''Content not accessible - might be a PDF or protected content'',
         link = [],
         analysis = ''Analysis error: Connection refused''\<rparr>]
       (generate_markdown now_example
         [\<lparr>title = ''Attention Is All You Need'',
           body = ''The dominant sequence transduction models'',
           link = ''https://arxiv.org/abs/1706.03762'',
           analysis = ''Analysis error: Connection refused''\<rparr>,
          \<lparr>title = [],
           body = ''Content not accessible - might be a PDF or protected content'',
           link = [],
           analysis = ''Analysis error: Connection refused''\<rparr>]
         ''attention''))"
proof -
  have s: "search_papers search_three fetch_web ''attention'' 5 (Some []) =
     [\<lparr>title = ''Attention Is All You Need'',
       body = ''The dominant sequence transduction models'',
       link = ''https://arxiv.org/abs/1706.03762''\<rparr>,
      \<lparr>title = [],
       body = ''Content not accessible - might be a PDF or protected content'',
       link = []\<rparr>]"
    by (simp add: search_three_def search_papers_def fetch_web_def get_page_content_def
      get_page_content_try_def title_of_def content_of_def summary_of_def inaccessible_def
      clean_text_def split_def isspace_def kept_def Let_def)
  have "True" and "''attention'' \<noteq> []"
    by simp_all
  from main_one_analysis_per_paper [of True "''attention''" search_three fetch_web 5 "[]" _
      chat_down now_example, OF this s] s
  show ?thesis
    by (simp add: main_def analyze_paper_def chat_down_def)
qed

section \<open>Properties of the report generator\<close>

text \<open>The loop appends the sections of the papers, numbered from \<open>idx\<close>, in order.\<close>

lemma generate_markdown_loop_eq:
  "generate_markdown_loop idx papers markdown_content =
     markdown_content @ concat (map (\<lambda>(i, paper). paper_section i paper) (enumerate idx papers))"
  by (induction papers arbitrary: idx markdown_content) simp_all

lemma enumerate_nth_map:
  "map f (enumerate idx papers) = map (\<lambda>i. f (idx + i, papers ! i)) [0..<length papers]"
  by (rule nth_equalityI) (simp_all add: nth_enumerate_eq)

text \<open>
  Claim C4. The report generator is deterministic given the list of analyzed papers, the
  query and the timestamp: two runs on the same list and the same query, with clock
  readings that render to the same timestamp, return the same string.
\<close>

theorem generate_markdown_deterministic:
  assumes "strftime now = strftime now'"
  shows "generate_markdown now papers_data search_query =
         generate_markdown now' papers_data search_query"
  using assms by (simp add: generate_markdown_def report_header_def)

theorem generate_markdown_deterministic_witness:
  "strftime now_example = ''2026-11-04 09:05:00'' \<and>
   strftime (now_example\<lparr>microsecond := 250000\<rparr>) = ''2026-11-04 09:05:00'' \<and>
   generate_markdown now_example
     [\<lparr>title = ''T'', body = ''B'', link = ''L'', analysis = ''A''\<rparr>] ''attention'' =
   generate_markdown (now_example\<lparr>microsecond := 250000\<rparr>)
     [\<lparr>title = ''T'', body = ''B'', link = ''L'', analysis = ''A''\<rparr>] ''attention''"
proof -
  have a: "strftime now_example = ''2026-11-04 09:05:00''"
    by (simp add: strftime_def now_example_def pad4_def pad2_def digit_def)
  have b: "strftime (now_example\<lparr>microsecond := 250000\<rparr>) = ''2026-11-04 09:05:00''"
    by (simp add: strftime_def now_example_def pad4_def pad2_def digit_def)
  from a b have "strftime now_example = strftime (now_example\<lparr>microsecond := 250000\<rparr>)"
    by simp
  then have "generate_markdown now_example
     [\<lparr>title = ''T'', body = ''B'', link = ''L'', analysis = ''A''\<rparr>] ''attention'' =
   generate_markdown (now_example\<lparr>microsecond := 250000\<rparr>)
     [\<lparr>title = ''T'', body = ''B'', link = ''L'', analysis = ''A''\<rparr>] ''attention''"
    by (rule generate_markdown_deterministic)
  with a b show ?thesis by simp
qed

subsection \<open>Lines and headings of a report\<close>

text \<open>A line feed separates the lines of what is before it from the lines of what is after it.\<close>

lemma lines_not_Nil: "lines s \<noteq> []"
  by (cases s) simp_all

lemma lines_append_newline: "lines (a @ CHR ''\<newline>'' # b) = lines a @ lines b"
proof (induction a)
  case Nil
  show ?case by simp
next
  case (Cons c a)
  then show ?case using lines_not_Nil [of a] by (cases "lines a") simp_all
qed

lemma lines_one: "CHR ''\<newline>'' \<notin> set a \<Longrightarrow> lines a = [a]"
  by (induction a) auto

lemma headings_append_newline: "headings (a @ CHR ''\<newline>'' # b) = headings a @ headings b"
  by (simp add: headings_def lines_append_newline)

lemma headings_Nil: "headings [] = []"
  by (simp add: headings_def)

lemma headings_one:
  "CHR ''\<newline>'' \<notin> set a \<Longrightarrow> headings a = (if prefix ''## '' a then [a] else [])"
  by (simp add: headings_def lines_one)

text \<open>Numbers and timestamps are rendered without a line feed.\<close>

lemma digit_not_newline: "digit n \<noteq> CHR ''\<newline>''"
proof -
  have "n mod 10 < length ''0123456789''" by simp
  then have "''0123456789'' ! (n mod 10) \<in> set ''0123456789''" by (rule nth_mem)
  then show ?thesis unfolding digit_def by auto
qed

lemma str_nat_no_newline: "CHR ''\<newline>'' \<notin> set (str_nat n)"
proof (induction n rule: str_nat.induct)
  case (1 n)
  show ?case
  proof (cases "n < 10")
    case True
    then show ?thesis using digit_not_newline [of n] by (subst str_nat.simps) auto
  next
    case False
    with 1 show ?thesis using digit_not_newline [of n] by (subst str_nat.simps) auto
  qed
qed

lemma pad2_no_newline: "CHR ''\<newline>'' \<notin> set (pad2 n)"
  using digit_not_newline [of "n div 10"] digit_not_newline [of n]
  by (auto simp add: pad2_def)

lemma pad4_no_newline: "CHR ''\<newline>'' \<notin> set (pad4 n)"
  using digit_not_newline [of "n div 1000"] digit_not_newline [of "n div 100"]
    digit_not_newline [of "n div 10"] digit_not_newline [of n]
  by (auto simp add: pad4_def)

lemma strftime_no_newline: "CHR ''\<newline>'' \<notin> set (strftime d)"
  by (simp add: strftime_def pad2_no_newline pad4_no_newline)

text \<open>
  The header cut at its line feeds, and its only heading. Appending the section of a paper
  whose fields bring no heading adds the heading of that paper, and nothing else.
\<close>

lemma report_header_lines:
  "report_header now search_query =
     ''# Literature Review Results'' @ CHR ''\<newline>'' #
     (''## Search Query: '' @ search_query) @ CHR ''\<newline>'' #
     (''*Generated on: '' @ strftime now @ ''*'') @ CHR ''\<newline>'' #
     [] @ CHR ''\<newline>'' # []"
  by (simp add: report_header_def)

lemma headings_report_header:
  assumes "CHR ''\<newline>'' \<notin> set search_query"
  shows "headings (report_header now search_query) = [''## Search Query: '' @ search_query]"
proof -
  have a: "headings ''# Literature Review Results'' = []"
    by (simp add: headings_one)
  have b: "headings (''## Search Query: '' @ search_query) = [''## Search Query: '' @ search_query]"
    using assms by (simp add: headings_one)
  have c: "headings (''*Generated on: '' @ strftime now @ ''*'') = []"
    using strftime_no_newline [of now] by (simp add: headings_one)
  show ?thesis
    by (simp only: report_header_lines headings_append_newline a b c headings_Nil) simp
qed

lemma headings_append_paper_section:
  assumes "CHR ''\<newline>'' \<notin> set (title paper)"
    and "CHR ''\<newline>'' \<notin> set (link paper)"
    and "headings (body paper) = []"
    and "headings (analysis paper) = []"
  shows "headings (markdown_content @ paper_section idx paper) =
         headings markdown_content @ [''## '' @ str_nat idx @ ''. '' @ title paper]"
proof -
  have a: "headings (''## '' @ str_nat idx @ ''. '' @ title paper) =
      [''## '' @ str_nat idx @ ''. '' @ title paper]"
    using assms(1) str_nat_no_newline [of idx] by (simp add: headings_one)
  have b: "headings (''**Link:** '' @ link paper) = []"
    using assms(2) by (simp add: headings_one)
  have c: "headings ''**Description:**'' = []"
    by (simp add: headings_one)
  have d: "headings ''**AI Analysis:**'' = []"
    by (simp add: headings_one)
  have e: "headings ''---'' = []"
    by (simp add: headings_one)
  have "headings (markdown_content @ paper_section idx paper) =
      headings markdown_content @ headings (tl (paper_section idx paper))"
    using headings_append_newline [of markdown_content "tl (paper_section idx paper)"]
    by (simp add: paper_section_def)
  moreover have "tl (paper_section idx paper) =
     (''## '' @ str_nat idx @ ''. '' @ title paper) @ CHR ''\<newline>'' #
     [] @ CHR ''\<newline>'' #
     (''**Link:** '' @ link paper) @ CHR ''\<newline>'' #
     [] @ CHR ''\<newline>'' #
     ''**Description:**'' @ CHR ''\<newline>'' #
     body paper @ CHR ''\<newline>'' #
     [] @ CHR ''\<newline>'' #
     ''**AI Analysis:**'' @ CHR ''\<newline>'' #
     analysis paper @ CHR ''\<newline>'' #
     [] @ CHR ''\<newline>'' #
     ''---'' @ CHR ''\<newline>'' # []"
    by (simp add: paper_section_def)
  moreover have "headings (
     (''## '' @ str_nat idx @ ''. '' @ title paper) @ CHR ''\<newline>'' #
     [] @ CHR ''\<newline>'' #
     (''**Link:** '' @ link paper) @ CHR ''\<newline>'' #
     [] @ CHR ''\<newline>'' #
     ''**Description:**'' @ CHR ''\<newline>'' #
     body paper @ CHR ''\<newline>'' #
     [] @ CHR ''\<newline>'' #
     ''**AI Analysis:**'' @ CHR ''\<newline>'' #
     analysis paper @ CHR ''\<newline>'' #
     [] @ CHR ''\<newline>'' #
     ''---'' @ CHR ''\<newline>'' # []) = [''## '' @ str_nat idx @ ''. '' @ title paper]"
    by (simp only: headings_append_newline a b c d e assms(3,4) headings_Nil) simp
  ultimately show ?thesis by simp
qed

lemma headings_generate_markdown_loop:
  assumes "\<forall>paper \<in> set papers.
      CHR ''\<newline>'' \<notin> set (title paper) \<and> CHR ''\<newline>'' \<notin> set (link paper) \<and>
      headings (body paper) = [] \<and> headings (analysis paper) = []"
  shows "headings (generate_markdown_loop idx papers markdown_content) =
         headings markdown_content @
         map (\<lambda>(i, paper). ''## '' @ str_nat i @ ''. '' @ title paper) (enumerate idx papers)"
  using assms
proof (induction papers arbitrary: idx markdown_content)
  case Nil
  show ?case by simp
next
  case (Cons paper papers)
  then show ?case by (simp add: headings_append_paper_section)
qed

lemma paper_section_prefix:
  "prefix (''\<newline>## '' @ str_nat idx @ ''. '' @ title paper @ ''\<newline>'') (paper_section idx paper)"
  by (simp add: paper_section_def)

text \<open>
  Claim C6, as amended. For every list of analyzed papers and every query, the report is
  the header followed by one section per paper, in input order: the section of the paper
  at index \<open>i\<close> is the rendering of that paper under the number \<open>i + 1\<close>, and it starts
  with the heading line \<^verbatim>\<open>## \<close>, the number, a dot and the title. The fields are embedded
  as they are. When they bring no heading of their own (the query, the titles and the links
  have no line feed, no line of a body or an analysis starts with \<^verbatim>\<open>## \<close>), the lines of
  the report that start with \<^verbatim>\<open>## \<close> are the heading of the query followed by exactly one
  heading per paper, in input order.
\<close>

theorem generate_markdown_sections:
  "generate_markdown now papers search_query =
     report_header now search_query @
     concat (map (\<lambda>i. paper_section (Suc i) (papers ! i)) [0..<length papers]) \<and>
   (\<forall>i < length papers.
      prefix (''\<newline>## '' @ str_nat (Suc i) @ ''. '' @ title (papers ! i) @ ''\<newline>'')
        (paper_section (Suc i) (papers ! i))) \<and>
   (CHR ''\<newline>'' \<notin> set search_query \<and>
    (\<forall>paper \<in> set papers.
       CHR ''\<newline>'' \<notin> set (title paper) \<and> CHR ''\<newline>'' \<notin> set (link paper) \<and>
       headings (body paper) = [] \<and> headings (analysis paper) = []) \<longrightarrow>
    headings (generate_markdown now papers search_query) =
      (''## Search Query: '' @ search_query) #
      map (\<lambda>i. ''## '' @ str_nat (Suc i) @ ''. '' @ title (papers ! i)) [0..<length papers])"
proof (intro conjI allI impI)
  have "map (\<lambda>(i, paper). paper_section i paper) (enumerate 1 papers) =
      map (\<lambda>i. paper_section (Suc i) (papers ! i)) [0..<length papers]"
    by (simp add: enumerate_nth_map)
  then show "generate_markdown now papers search_query =
     report_header now search_query @
     concat (map (\<lambda>i. paper_section (Suc i) (papers ! i)) [0..<length papers])"
    by (simp add: generate_markdown_def generate_markdown_loop_eq)
next
  fix i
  show "prefix (''\<newline>## '' @ str_nat (Suc i) @ ''. '' @ title (papers ! i) @ ''\<newline>'')
        (paper_section (Suc i) (papers ! i))"
    by (rule paper_section_prefix)
next
  assume h: "CHR ''\<newline>'' \<notin> set search_query \<and>
    (\<forall>paper \<in> set papers.
       CHR ''\<newline>'' \<notin> set (title paper) \<and> CHR ''\<newline>'' \<notin> set (link paper) \<and>
       headings (body paper) = [] \<and> headings (analysis paper) = [])"
  have "map (\<lambda>(i, paper). ''## '' @ str_nat i @ ''. '' @ title paper) (enumerate 1 papers) =
      map (\<lambda>i. ''## '' @ str_nat (Suc i) @ ''. '' @ title (papers ! i)) [0..<length papers]"
    by (simp add: enumerate_nth_map)
  moreover from h have "headings (generate_markdown_loop 1 papers (report_header now search_query)) =
      headings (report_header now search_query) @
      map (\<lambda>(i, paper). ''## '' @ str_nat i @ ''. '' @ title paper) (enumerate 1 papers)"
    by (intro headings_generate_markdown_loop) blast
  moreover from h have "headings (report_header now search_query) = [''## Search Query: '' @ search_query]"
    by (intro headings_report_header) blast
  ultimately show "headings (generate_markdown now papers search_query) =
      (''## Search Query: '' @ search_query) #
      map (\<lambda>i. ''## '' @ str_nat (Suc i) @ ''. '' @ title (papers ! i)) [0..<length papers]"
    by (simp add: generate_markdown_def)
qed

theorem generate_markdown_sections_witness:
  "generate_markdown now_example
     [\<lparr>title = ''T'', body = ''B'', link = ''L'', analysis = ''A''\<rparr>,
      \<lparr>title = ''U'', body = ''C'', link = ''M'', analysis = ''D''\<rparr>] ''attention'' =
     report_header now_example ''attention'' @
     paper_section 1 \<lparr>title = ''T'', body = ''B'', link = ''L'', analysis = ''A''\<rparr> @
     paper_section 2 \<lparr>title = ''U'', body = ''C'', link = ''M'', analysis = ''D''\<rparr> \<and>
   prefix ''\<newline>## 1. T\<newline>''
     (paper_section 1 \<lparr>title = ''T'', body = ''B'', link = ''L'', analysis = ''A''\<rparr>) \<and>
   prefix ''\<newline>## 2. U\<newline>''
     (paper_section 2 \<lparr>title = ''U'', body = ''C'', link = ''M'', analysis = ''D''\<rparr>) \<and>
   headings ''B'' = [] \<and> headings ''A'' = [] \<and> headings ''C'' = [] \<and> headings ''D'' = [] \<and>
   headings (generate_markdown now_example
     [\<lparr>title = ''T'', body = ''B'', link = ''L'', analysis = ''A''\<rparr>,
      \<lparr>title = ''U'', body = ''C'', link = ''M'', analysis = ''D''\<rparr>] ''attention'') =
     [''## Search Query: attention'', ''## 1. T'', ''## 2. U'']"
proof -
  have s: "str_nat (Suc 0) = ''1''" "str_nat (Suc (Suc 0)) = ''2''"
    by (simp_all add: str_nat.simps digit_def)
  have h: "headings ''B'' = []" "headings ''A'' = []" "headings ''C'' = []" "headings ''D'' = []"
    by (simp_all add: headings_def)
  have u: "[0..<2] = [0, 1]"
    by (simp add: upt_rec)
  note t = generate_markdown_sections [of now_example
      "[\<lparr>title = ''T'', body = ''B'', link = ''L'', analysis = ''A''\<rparr>,
        \<lparr>title = ''U'', body = ''C'', link = ''M'', analysis = ''D''\<rparr>]" "''attention''"]
  from t [THEN conjunct1]
  have a: "generate_markdown now_example
     [\<lparr>title = ''T'', body = ''B'', link = ''L'', analysis = ''A''\<rparr>,
      \<lparr>title = ''U'', body = ''C'', link = ''M'', analysis = ''D''\<rparr>] ''attention'' =
     report_header now_example ''attention'' @
     paper_section 1 \<lparr>title = ''T'', body = ''B'', link = ''L'', analysis = ''A''\<rparr> @
     paper_section 2 \<lparr>title = ''U'', body = ''C'', link = ''M'', analysis = ''D''\<rparr>"
    by (simp add: u numeral_2_eq_2)
  from t [THEN conjunct2, THEN conjunct1, rule_format, of 0]
    t [THEN conjunct2, THEN conjunct1, rule_format, of 1]
  have b: "prefix ''\<newline>## 1. T\<newline>''
     (paper_section 1 \<lparr>title = ''T'', body = ''B'', link = ''L'', analysis = ''A''\<rparr>) \<and>
   prefix ''\<newline>## 2. U\<newline>''
     (paper_section 2 \<lparr>title = ''U'', body = ''C'', link = ''M'', analysis = ''D''\<rparr>)"
    using s by (simp add: numeral_2_eq_2)
  from t [THEN conjunct2, THEN conjunct2] h
  have c: "headings (generate_markdown now_example
     [\<lparr>title = ''T'', body = ''B'', link = ''L'', analysis = ''A''\<rparr>,
      \<lparr>title = ''U'', body = ''C'', link = ''M'', analysis = ''D''\<rparr>] ''attention'') =
     [''## Search Query: attention'', ''## 1. T'', ''## 2. U'']"
    using s by (simp add: u numeral_2_eq_2)
  from a b c h show ?thesis by blast
qed

text \<open>
  Claim C6 as stated counts one \<^verbatim>\<open>##\<close>-headed section per paper for every list of papers.
  The analysis is the text of the language model, embedded as it is: for one paper whose
  analysis is the line \<^verbatim>\<open>## Key findings\<close>, the report has two headings of level two
  after the heading of the query.
\<close>

theorem generate_markdown_sections_counterexample:
  "headings ''## Key findings'' = [''## Key findings''] \<and>
   headings (generate_markdown now_example
     [\<lparr>title = ''T'', body = ''B'', link = ''L'', analysis = ''## Key findings''\<rparr>] ''q'') =
     [''## Search Query: q'', ''## 1. T'', ''## Key findings'']"
proof -
  have s: "str_nat (Suc 0) = ''1''"
    by (simp add: str_nat.simps digit_def)
  have t: "strftime now_example = ''2026-11-04 09:05:00''"
    by (simp add: strftime_def now_example_def pad4_def pad2_def digit_def)
  have g: "generate_markdown now_example
     [\<lparr>title = ''T'', body = ''B'', link = ''L'', analysis = ''## Key findings''\<rparr>] ''q'' =
     ''# Literature Review Results'' @ CHR ''\<newline>'' #
     ''## Search Query: q'' @ CHR ''\<newline>'' #
     ''*Generated on: 2026-11-04 09:05:00*'' @ CHR ''\<newline>'' #
     [] @ CHR ''\<newline>'' #
     [] @ CHR ''\<newline>'' #
     ''## 1. T'' @ CHR ''\<newline>'' #
     [] @ CHR ''\<newline>'' #
     ''**Link:** L'' @ CHR ''\<newline>'' #
     [] @ CHR ''\<newline>'' #
     ''**Description:**'' @ CHR ''\<newline>'' #
     ''B'' @ CHR ''\<newline>'' #
     [] @ CHR ''\<newline>'' #
     ''**AI Analysis:**'' @ CHR ''\<newline>'' #
     ''## Key findings'' @ CHR ''\<newline>'' #
     [] @ CHR ''\<newline>'' #
     ''---'' @ CHR ''\<newline>'' # []"
    by (simp add: generate_markdown_def report_header_def paper_section_def s t)
  have h: "headings ''# Literature Review Results'' = []"
    "headings ''## Search Query: q'' = [''## Search Query: q'']"
    "headings ''*Generated on: 2026-11-04 09:05:00*'' = []"
    "headings ''## 1. T'' = [''## 1. T'']"
    "headings ''**Link:** L'' = []"
    "headings ''**Description:**'' = []"
    "headings ''B'' = []"
    "headings ''**AI Analysis:**'' = []"
    "headings ''## Key findings'' = [''## Key findings'']"
    "headings ''---'' = []"
    by (simp_all add: headings_one)
  have "headings (generate_markdown now_example
     [\<lparr>title = ''T'', body = ''B'', link = ''L'', analysis = ''## Key findings''\<rparr>] ''q'') =
     [''## Search Query: q'', ''## 1. T'', ''## Key findings'']"
    by (simp only: g headings_append_newline h headings_Nil) simp
  with h(9) show ?thesis by simp
qed

end
